theory Spec2Isabelle
  imports Main
begin

section \<open>JavaScript values\<close>

text \<open>
  The values that flow through \<^verbatim>\<open>src/admin-bro.js\<close>: the options object given to
  the constructor, the module-level \<^verbatim>\<open>defaults\<close> object, database and resource handles.

  \<^item> \<open>Obj\<close> is a plain object, given by its own enumerable string-keyed data properties
    in the order in which JavaScript enumerates them (accessors, inherited properties and
    the keys \<^verbatim>\<open>__proto__\<close> and \<^verbatim>\<open>constructor\<close> are not modelled);
  \<^item> \<open>Arr\<close> is an array, given by its elements (a hole reads as \<^verbatim>\<open>undefined\<close> and is
    carried as \<open>Undefined\<close>) and by its other own properties, those that are neither an
    element nor \<^verbatim>\<open>length\<close>;
  \<^item> \<open>Fn\<close> is a function or class, \<open>Inst\<close> an instance of a class (neither an arguments
    object, a buffer nor a typed array); both are opaque and compared by reference, the
    number being the reference;
  \<^item> \<open>Num\<close> carries the integral numbers only.
\<close>

datatype jsval =
    Undefined
  | Null
  | Bool bool
  | Num int
  | Str string
  | Fn nat
  | Inst nat
  | Arr "jsval list" "(string \<times> jsval) list"
  | Obj "(string \<times> jsval) list"

type_synonym jsobj = "(string \<times> jsval) list"

text \<open>\<^verbatim>\<open>object[key]\<close> on a plain object: \<^verbatim>\<open>undefined\<close> when the key is absent.\<close>

fun get :: "jsobj \<Rightarrow> string \<Rightarrow> jsval" where
  "get [] key = Undefined"
| "get ((k, v) # rest) key = (if k = key then v else get rest key)"

text \<open>\<^verbatim>\<open>key in object\<close>.\<close>

fun has :: "jsobj \<Rightarrow> string \<Rightarrow> bool" where
  "has [] key = False"
| "has ((k, v) # rest) key = (k = key \<or> has rest key)"

text \<open>\<^verbatim>\<open>object[key] = value\<close>: an existing key keeps its place, a new key goes last.\<close>

fun baseAssignValue :: "jsobj \<Rightarrow> string \<Rightarrow> jsval \<Rightarrow> jsobj" where
  "baseAssignValue [] key v = [(key, v)]"
| "baseAssignValue ((k, w) # rest) key v =
     (if k = key then (k, v) # rest else (k, w) # baseAssignValue rest key v)"

text \<open>\<^verbatim>\<open>array[i]\<close>: \<^verbatim>\<open>undefined\<close> out of range.\<close>

definition getIndex :: "jsval list \<Rightarrow> nat \<Rightarrow> jsval" where
  "getIndex xs i = (if i < length xs then xs ! i else Undefined)"

text \<open>\<^verbatim>\<open>array[i] = value\<close>: JavaScript extends the array; the positions in between
  read as \<^verbatim>\<open>undefined\<close>.\<close>

definition setIndex :: "jsval list \<Rightarrow> nat \<Rightarrow> jsval \<Rightarrow> jsval list" where
  "setIndex xs i v =
     (if i < length xs then xs[i := v]
      else xs @ replicate (i - length xs) Undefined @ [v])"

text \<open>
  Property keys on an array. A key is an array index when it is the decimal numeral,
  without leading zeros, of a number below \<open>2^32 - 1\<close>: \<open>indexKey\<close> is the numeral of a
  number, \<open>arrayIndex\<close> the index that a key denotes.
\<close>

function indexKey :: "int \<Rightarrow> string" where
  "indexKey n =
     (if n < 10 then [''0123456789'' ! nat n]
      else indexKey (n div 10) @ [''0123456789'' ! nat (n mod 10)])"
  by pat_completeness auto
termination
  by (relation "measure nat") auto

declare indexKey.simps [simp del]

definition digitValue :: "char \<Rightarrow> int option" where
  "digitValue c = map_of (zip ''0123456789'' [0, 1, 2, 3, 4, 5, 6, 7, 8, 9]) c"

fun parseDigits :: "int \<Rightarrow> string \<Rightarrow> int option" where
  "parseDigits n [] = Some n"
| "parseDigits n (c # cs) =
     (case digitValue c of None \<Rightarrow> None | Some d \<Rightarrow> parseDigits (10 * n + d) cs)"

definition arrayIndex :: "string \<Rightarrow> nat option" where
  "arrayIndex key =
     (case parseDigits 0 key of
        None \<Rightarrow> None
      | Some n \<Rightarrow> if key \<noteq> [] \<and> indexKey n = key \<and> n < 4294967295 then Some (nat n) else None)"

text \<open>lodash's \<^verbatim>\<open>isObject\<close>: the language type Object (arrays, functions, objects).\<close>

fun isObject :: "jsval \<Rightarrow> bool" where
  "isObject (Fn _) = True"
| "isObject (Inst _) = True"
| "isObject (Arr _ _) = True"
| "isObject (Obj _) = True"
| "isObject _ = False"

text \<open>What \<^verbatim>\<open>a || b\<close> and \<^verbatim>\<open>!a\<close> test.\<close>

fun truthy :: "jsval \<Rightarrow> bool" where
  "truthy Undefined = False"
| "truthy Null = False"
| "truthy (Bool b) = b"
| "truthy (Num n) = (n \<noteq> 0)"
| "truthy (Str s) = (s \<noteq> [])"
| "truthy _ = True"

text \<open>\<^verbatim>\<open>array[key]\<close> and \<^verbatim>\<open>key in array\<close> for a property key: an element, the length,
  or another property.\<close>

definition arrGet :: "jsval list \<Rightarrow> jsobj \<Rightarrow> string \<Rightarrow> jsval" where
  "arrGet xs ps key =
     (case arrayIndex key of
        Some i \<Rightarrow> getIndex xs i
      | None \<Rightarrow> if key = ''length'' then Num (int (length xs)) else get ps key)"

definition arrHas :: "jsval list \<Rightarrow> jsobj \<Rightarrow> string \<Rightarrow> bool" where
  "arrHas xs ps key =
     (case arrayIndex key of
        Some i \<Rightarrow> i < length xs
      | None \<Rightarrow> key = ''length'' \<or> has ps key)"

text \<open>
  \<^verbatim>\<open>array.length = value\<close> converts the value to a number and throws \<^verbatim>\<open>RangeError\<close>
  unless it is an integer from 0 to \<open>2^32 - 1\<close>; then it truncates the array or extends
  it with holes. \<open>toLength\<close> is the new length; it is \<open>None\<close> where the assignment throws,
  and for strings and objects, whose conversion to a number is not modelled.
\<close>

fun toLength :: "jsval \<Rightarrow> nat option" where
  "toLength (Num n) = (if 0 \<le> n \<and> n \<le> 4294967295 then Some (nat n) else None)"
| "toLength Null = Some 0"
| "toLength (Bool b) = Some (if b then 1 else 0)"
| "toLength v = None"

definition setLength :: "jsval list \<Rightarrow> nat \<Rightarrow> jsval list" where
  "setLength xs n = take n xs @ replicate (n - length xs) Undefined"

text \<open>\<^verbatim>\<open>array[key] = value\<close> for a property key.\<close>

definition arrSet :: "jsval list \<Rightarrow> jsobj \<Rightarrow> string \<Rightarrow> jsval \<Rightarrow> (jsval list \<times> jsobj) option" where
  "arrSet xs ps key v =
     (case arrayIndex key of
        Some i \<Rightarrow> Some (setIndex xs i v, ps)
      | None \<Rightarrow>
          if key = ''length'' then map_option (\<lambda>n. (setLength xs n, ps)) (toLength v)
          else Some (xs, baseAssignValue ps key v))"

section \<open>lodash's merge\<close>

text \<open>
  \<^verbatim>\<open>_.merge(object, source)\<close> (lodash 4.17.21, no customizer) writes into \<^verbatim>\<open>object\<close>
  and returns it. Its documentation: source properties that resolve to \<^verbatim>\<open>undefined\<close>
  are skipped if a destination value exists; array and plain object properties are merged
  recursively; other objects and value types are overridden by assignment.

  \<open>assignMergeValue\<close> is lodash's function of that name on a plain object,
  \<open>assignMergeIndex\<close> the same at an index of an array, \<open>assignMergeKey\<close> the same at a
  property key of an array.
\<close>

definition assignMergeValue :: "jsobj \<Rightarrow> string \<Rightarrow> jsval \<Rightarrow> jsobj" where
  "assignMergeValue object key v =
     (if (v \<noteq> Undefined \<and> get object key \<noteq> v) \<or> (v = Undefined \<and> \<not> has object key)
      then baseAssignValue object key v else object)"

definition assignMergeIndex :: "jsval list \<Rightarrow> nat \<Rightarrow> jsval \<Rightarrow> jsval list" where
  "assignMergeIndex object i v =
     (if (v \<noteq> Undefined \<and> getIndex object i \<noteq> v) \<or> (v = Undefined \<and> \<not> i < length object)
      then setIndex object i v else object)"

definition assignMergeKey ::
  "jsval list \<Rightarrow> jsobj \<Rightarrow> string \<Rightarrow> jsval \<Rightarrow> (jsval list \<times> jsobj) option"
where
  "assignMergeKey xs ps key v =
     (if (v \<noteq> Undefined \<and> arrGet xs ps key \<noteq> v) \<or> (v = Undefined \<and> \<not> arrHas xs ps key)
      then arrSet xs ps key v else Some (xs, ps))"

text \<open>lodash's \<^verbatim>\<open>isArrayLikeObject\<close> on a plain object: a \<^verbatim>\<open>length\<close> property that is a
  valid length.\<close>

definition isArrayLikeObj :: "jsobj \<Rightarrow> bool" where
  "isArrayLikeObj kvs =
     (case get kvs ''length'' of Num n \<Rightarrow> 0 \<le> n \<and> n \<le> 9007199254740991 | _ \<Rightarrow> False)"

text \<open>
  The array into which \<^verbatim>\<open>baseMergeDeep\<close> merges a source array: the destination's value
  when that is an array, otherwise a new empty array. It is \<open>None\<close> for a class instance
  and for an array-like plain object, which lodash copies into an array first: the
  properties of instances and that copy are not modelled.
\<close>

fun arrayDest :: "jsval \<Rightarrow> (jsval list \<times> jsobj) option" where
  "arrayDest (Arr dst dps) = Some (dst, dps)"
| "arrayDest (Inst _) = None"
| "arrayDest (Obj kvs) = (if isArrayLikeObj kvs then None else Some ([], []))"
| "arrayDest objValue = Some ([], [])"

text \<open>
  \<open>baseMergeDeep objValue srcValue\<close> is the \<^verbatim>\<open>newValue\<close> that lodash's
  \<^verbatim>\<open>baseMergeDeep\<close> computes for a source value that is an object, from the destination's
  current value. \<open>baseMerge\<close> is \<^verbatim>\<open>baseMerge\<close> of a plain object into a plain object,
  walking the source's keys in order; \<open>baseMergeArr\<close> walks the elements of a source
  array, \<open>baseMergeKeys\<close> the keys of a source (a plain object, or the other properties
  of a source array) when the destination is an array.

  A source array is merged into the destination's array, or into a new array where the
  destination holds none, index by index. A plain object is merged into the destination's
  plain object or array, key by key, or into a new plain object where the destination
  holds a function or no object.

  The result is \<open>None\<close>
  \<^item> where the merge assigns an invalid length to an array, which throws \<^verbatim>\<open>RangeError\<close>
    and leaves the destination partly written;
  \<^item> where lodash writes into an object whose properties this model does not carry: a
    plain object or an array merged into a class instance, an array merged into an
    array-like plain object;
  \<^item> where a string or an object is assigned to the length of an array.
\<close>

fun baseMergeDeep :: "jsval \<Rightarrow> jsval \<Rightarrow> jsval option"
  and baseMerge :: "jsobj \<Rightarrow> jsobj \<Rightarrow> jsobj option"
  and baseMergeArr :: "jsval list \<Rightarrow> nat \<Rightarrow> jsval list \<Rightarrow> jsval list option"
  and baseMergeKeys :: "jsval list \<Rightarrow> jsobj \<Rightarrow> jsobj \<Rightarrow> (jsval list \<times> jsobj) option"
where
  "baseMergeDeep objValue (Arr src sps) =
     (case arrayDest objValue of
        None \<Rightarrow> None
      | Some (dst, dps) \<Rightarrow>
          (case baseMergeArr dst 0 src of
             None \<Rightarrow> None
           | Some xs \<Rightarrow>
               (case baseMergeKeys xs dps sps of
                  None \<Rightarrow> None
                | Some (xs', ps') \<Rightarrow> Some (Arr xs' ps'))))"
| "baseMergeDeep objValue (Obj src) =
     (case objValue of
        Obj dst \<Rightarrow> map_option Obj (baseMerge dst src)
      | Arr dst dps \<Rightarrow>
          (case baseMergeKeys dst dps src of
             None \<Rightarrow> None
           | Some (xs', ps') \<Rightarrow> Some (Arr xs' ps'))
      | Inst _ \<Rightarrow> None
      | _ \<Rightarrow> map_option Obj (baseMerge [] src))"
| "baseMergeDeep objValue srcValue = Some srcValue"
| "baseMerge object [] = Some object"
| "baseMerge object ((key, srcValue) # rest) =
     (if isObject srcValue
      then (case baseMergeDeep (get object key) srcValue of
              None \<Rightarrow> None
            | Some newValue \<Rightarrow> baseMerge (assignMergeValue object key newValue) rest)
      else baseMerge (assignMergeValue object key srcValue) rest)"
| "baseMergeArr object i [] = Some object"
| "baseMergeArr object i (srcValue # rest) =
     (if isObject srcValue
      then (case baseMergeDeep (getIndex object i) srcValue of
              None \<Rightarrow> None
            | Some newValue \<Rightarrow> baseMergeArr (assignMergeIndex object i newValue) (Suc i) rest)
      else baseMergeArr (assignMergeIndex object i srcValue) (Suc i) rest)"
| "baseMergeKeys xs ps [] = Some (xs, ps)"
| "baseMergeKeys xs ps ((key, srcValue) # rest) =
     (if isObject srcValue
      then (case baseMergeDeep (arrGet xs ps key) srcValue of
              None \<Rightarrow> None
            | Some newValue \<Rightarrow>
                (case assignMergeKey xs ps key newValue of
                   None \<Rightarrow> None
                 | Some (xs', ps') \<Rightarrow> baseMergeKeys xs' ps' rest))
      else (case assignMergeKey xs ps key srcValue of
              None \<Rightarrow> None
            | Some (xs', ps') \<Rightarrow> baseMergeKeys xs' ps' rest))"

text \<open>\<^verbatim>\<open>_.merge(object, source)\<close> for two plain objects: the new contents of
  \<^verbatim>\<open>object\<close>, which is also the value returned.\<close>

definition merge :: "jsobj \<Rightarrow> jsobj \<Rightarrow> jsobj option" where
  "merge object source = baseMerge object source"

text \<open>The value that one source property leaves at its key, from the destination's value
  there: \<^verbatim>\<open>undefined\<close> is skipped, an object goes through \<open>baseMergeDeep\<close>, and any
  other value is assigned.\<close>

definition mergedValue :: "jsval \<Rightarrow> jsval \<Rightarrow> jsval option" where
  "mergedValue objValue srcValue =
     (if isObject srcValue then baseMergeDeep objValue srcValue
      else if srcValue = Undefined then Some objValue else Some srcValue)"

text \<open>The values that the merge assigns as they are: every defined value that is neither
  an array nor a plain object.\<close>

fun assignedAsIs :: "jsval \<Rightarrow> bool" where
  "assignedAsIs Undefined = False"
| "assignedAsIs (Arr _ _) = False"
| "assignedAsIs (Obj _) = False"
| "assignedAsIs _ = True"

text \<open>
  The representation of a JavaScript value: a plain object has each key once, with the
  keys that are array indices first, in ascending order, as JavaScript enumerates them;
  the other properties of an array have each key once and are neither an array index nor
  \<^verbatim>\<open>length\<close>. \<open>wellFormed\<close> says so of a value and of every value inside it.
\<close>

definition inEnumerationOrder :: "string list \<Rightarrow> bool" where
  "inEnumerationOrder keys =
     (sorted_wrt (<) (map (the \<circ> arrayIndex) (takeWhile (\<lambda>k. arrayIndex k \<noteq> None) keys))
      \<and> list_all (\<lambda>k. arrayIndex k = None) (dropWhile (\<lambda>k. arrayIndex k \<noteq> None) keys))"

fun wellFormed :: "jsval \<Rightarrow> bool"
  and wellFormedProps :: "jsobj \<Rightarrow> bool"
  and wellFormedAll :: "jsval list \<Rightarrow> bool"
where
  "wellFormed (Arr xs ps) =
     (wellFormedAll xs \<and> distinct (map fst ps)
      \<and> list_all (\<lambda>k. arrayIndex k = None \<and> k \<noteq> ''length'') (map fst ps)
      \<and> wellFormedProps ps)"
| "wellFormed (Obj kvs) =
     (distinct (map fst kvs) \<and> inEnumerationOrder (map fst kvs) \<and> wellFormedProps kvs)"
| "wellFormed v = True"
| "wellFormedProps [] = True"
| "wellFormedProps ((k, v) # rest) = (wellFormed v \<and> wellFormedProps rest)"
| "wellFormedAll [] = True"
| "wellFormedAll (x # xs) = (wellFormed x \<and> wellFormedAll xs)"

text \<open>
  The index-wise merge of a source array \<open>us\<close> over a destination array \<open>ds\<close> when no
  element is merged into another: an element of \<open>us\<close> stands at its index, except
  \<^verbatim>\<open>undefined\<close>, which leaves what the destination holds there; the elements of \<open>ds\<close>
  beyond the length of \<open>us\<close> stay.
\<close>

fun overlay :: "jsval list \<Rightarrow> jsval list \<Rightarrow> jsval list" where
  "overlay ds [] = ds"
| "overlay [] (u # us) = u # overlay [] us"
| "overlay (d # ds) (u # us) = (if u = Undefined then d else u) # overlay ds us"

text \<open>
  \<open>mergedInto d u\<close>: what merging the source value \<open>u\<close> leaves where the destination
  holds \<open>d\<close> depends on the contents of \<open>d\<close>. This is so when \<open>u\<close> is a plain object and
  \<open>d\<close> a plain object, an array or an instance, into which \<open>u\<close> is merged; and when \<open>u\<close>
  is an array and \<open>d\<close> an array, into which \<open>u\<close> is merged, an array-like plain object,
  which is copied first, or an instance, which may be array-like. Otherwise \<open>u\<close> is
  assigned, or merged into a new object.
\<close>

fun mergedInto :: "jsval \<Rightarrow> jsval \<Rightarrow> bool" where
  "mergedInto (Obj dst) (Obj src) = True"
| "mergedInto (Arr dst dps) (Obj src) = True"
| "mergedInto (Inst n) (Obj src) = True"
| "mergedInto (Arr dst dps) (Arr src sps) = True"
| "mergedInto (Inst n) (Arr src sps) = True"
| "mergedInto (Obj dst) (Arr src sps) = isArrayLikeObj dst"
| "mergedInto d u = False"

text \<open>No element of \<open>us\<close> is merged into the element of \<open>ds\<close> at its index.\<close>

fun noneMergedInto :: "jsval list \<Rightarrow> jsval list \<Rightarrow> bool" where
  "noneMergedInto ds [] = True"
| "noneMergedInto [] (u # us) = True"
| "noneMergedInto (d # ds) (u # us) = (\<not> mergedInto d u \<and> noneMergedInto ds us)"

text \<open>Reading a nested property, \<^verbatim>\<open>value.a.b\<close>, with \<^verbatim>\<open>undefined\<close> for a path that
  leaves the plain objects.\<close>

fun getIn :: "jsval \<Rightarrow> string list \<Rightarrow> jsval" where
  "getIn v [] = v"
| "getIn (Obj kvs) (k # path) = getIn (get kvs k) path"
| "getIn v (k # path) = Undefined"


text \<open>The elements of the array that a value is; none for every other value.\<close>

fun elements :: "jsval \<Rightarrow> jsval list" where
  "elements (Arr xs ps) = xs"
| "elements v = []"



section \<open>Module state\<close>

text \<open>
  The module keeps two mutable objects: \<^verbatim>\<open>defaults\<close> (lines 110-126) and the static
  \<^verbatim>\<open>AdminBro.registeredAdapters\<close> (line 253). Every operation below takes the state
  and returns the new one.
\<close>

datatype error =
    Error string  \<comment> \<open>\<^verbatim>\<open>throw new Error(message)\<close>\<close>
  | NoAdapterError  \<comment> \<open>the resource factory's failure, as section 7 of the specification names it\<close>

text \<open>Modelled from the spec: a resource (\<^verbatim>\<open>BaseResource\<close> is not among the sources),
  "opaque, exposes at minimum an identifier accessor \<^verbatim>\<open>id()\<close>"; \<open>resource_id\<close> is what
  \<^verbatim>\<open>id()\<close> returns, \<open>resource_options\<close> the options that the factory attaches.\<close>

record resource =
  resource_id :: string
  resource_options :: jsval

text \<open>
  The \<^verbatim>\<open>isAdapterFor\<close> property of a member of an adapter: a method, given by what it
  returns for a handle, or any other value, \<open>Value Undefined\<close> when the member has no such
  property.
\<close>

datatype property = Method "jsval \<Rightarrow> bool" | Value jsval

text \<open>The truthiness of the property, which is what line 171 tests. A function is
  truthy.\<close>

fun truthyProperty :: "property \<Rightarrow> bool" where
  "truthyProperty (Method f) = True"
| "truthyProperty (Value v) = truthy v"

text \<open>The two members of an adapter, as far as this module looks at them.\<close>

record adapter_kind =
  isAdapterFor :: property

text \<open>Modelled from the spec: the wrappers of the Resource member, "a constructor/factory
  taking a matched database entry", which yields the resources of a database entry (one
  handle may yield many) and one resource for a single resource handle.\<close>

record resource_kind = adapter_kind +
  wrapDatabase :: "jsval \<Rightarrow> resource list"
  wrapResource :: "jsval \<Rightarrow> resource"

record adapter_pair =
  Database :: adapter_kind
  Resource :: resource_kind

record module_state =
  defaults :: jsobj
  registeredAdapters :: "adapter_pair list"

text \<open>\<^verbatim>\<open>DefaultDashboard\<close> is the class exported by
  \<^verbatim>\<open>./backend/defaults/default-dashboard\<close>: an opaque reference.\<close>

definition DefaultDashboard :: jsval where
  "DefaultDashboard = Fn 0"

text \<open>The object literal of lines 110-126, the contents of \<^verbatim>\<open>defaults\<close> when the
  module is loaded.\<close>

definition defaults_literal :: jsobj where
  "defaults_literal =
     [(''rootPath'', Str ''/admin''),
      (''logoutPath'', Str ''/admin/logout''),
      (''loginPath'', Str ''/admin/login''),
      (''databases'', Arr [] []),
      (''resources'', Arr [] []),
      (''branding'', Obj
         [(''logo'', Str ''https://softwarebrothers.co/assets/images/software-brothers-logo-compact.svg''),
          (''companyName'', Str ''Company Name''),
          (''softwareBrothers'', Bool True)]),
      (''dashboard'', DefaultDashboard),
      (''assets'', Obj
         [(''styles'', Arr [Str ''/style.css''] []),
          (''scripts'', Arr [Str ''/scripts.js''] [])])]"

definition loaded :: module_state where
  "loaded = \<lparr>defaults = defaults_literal, registeredAdapters = []\<rparr>"

section \<open>Adapter registration\<close>

text \<open>\<^verbatim>\<open>static registerAdapter({ Database, Resource })\<close> (lines 166-176). A member is
  \<open>None\<close> when it is missing or falsy, which is what line 167 tests; line 171 tests that
  the \<^verbatim>\<open>isAdapterFor\<close> of both members is truthy. The result is the outcome of the call and
  the state after it.\<close>

definition registerAdapter ::
  "module_state \<Rightarrow> adapter_kind option \<Rightarrow> resource_kind option \<Rightarrow> (error + unit) \<times> module_state"
where
  "registerAdapter M Database' Resource' =
     (case (Database', Resource') of
        (Some D, Some R) \<Rightarrow>
          if truthyProperty (isAdapterFor D) \<and> truthyProperty (isAdapterFor R)
          then (Inr (),
                M\<lparr>registeredAdapters := registeredAdapters M @ [\<lparr>Database = D, Resource = R\<rparr>]\<rparr>)
          else (Inl (Error ''Adapter elements has to be subclassess of AdminBro.BaseResource nad AdminBro.BaseDatabase''), M)
      | _ \<Rightarrow> (Inl (Error ''Adapter has to have both Database and Resource''), M))"

section \<open>Resource factory\<close>

text \<open>
  \<^verbatim>\<open>ResourcesFactory\<close> (\<^verbatim>\<open>./backend/utils/resources-factory\<close>) is not among the sources;
  the definitions of this section follow section 4.2 of the specification.
\<close>

text \<open>Modelled from the spec: the test of the scan for a database entry, "the first pair
  whose \<^verbatim>\<open>databaseKind.isAdapterFor(entry)\<close> returns true". The spec describes the scan
  over pairs whose members have the method; a member that has another value as its
  \<^verbatim>\<open>isAdapterFor\<close> accepts nothing here.\<close>

definition matchesDatabase :: "jsval \<Rightarrow> adapter_pair \<Rightarrow> bool" where
  "matchesDatabase entry p =
     (case isAdapterFor (Database p) of Method f \<Rightarrow> f entry | Value v \<Rightarrow> False)"

text \<open>Modelled from the spec: the test of the scan for a resource handle, "find a matching
  adapter pair as above for wrapping a single resource"; the handle is tested by the
  pair's resource kind.\<close>

definition matchesResource :: "jsval \<Rightarrow> adapter_pair \<Rightarrow> bool" where
  "matchesResource handle p =
     (case isAdapterFor (Resource p) of Method f \<Rightarrow> f handle | Value v \<Rightarrow> False)"

text \<open>Modelled from the spec: step 1 for one entry of \<^verbatim>\<open>databases\<close>. "Scan the Adapter
  Registry in registration order and select the first pair [that accepts the entry]; wrap
  the entry using that pair's resource-kind wrapper to obtain one or more Resource
  instances. Fails with \<^verbatim>\<open>NoAdapterError\<close> if no pair matches."\<close>

definition convertDatabase :: "adapter_pair list \<Rightarrow> jsval \<Rightarrow> error + resource list" where
  "convertDatabase registry entry =
     (case find (matchesDatabase entry) registry of
        None \<Rightarrow> Inl NoAdapterError
      | Some p \<Rightarrow> Inr (wrapDatabase (Resource p) entry))"

text \<open>Modelled from the spec: step 1, "for each entry in \<^verbatim>\<open>databases\<close> (in given order)";
  the first failure ends it.\<close>

fun convertDatabases :: "adapter_pair list \<Rightarrow> jsval list \<Rightarrow> error + resource list" where
  "convertDatabases registry [] = Inr []"
| "convertDatabases registry (entry # rest) =
     (case convertDatabase registry entry of
        Inl e \<Rightarrow> Inl e
      | Inr rs \<Rightarrow> (case convertDatabases registry rest of
                     Inl e \<Rightarrow> Inl e
                   | Inr rs' \<Rightarrow> Inr (rs @ rs')))"

text \<open>Modelled from the spec: wrapping a single resource handle by the first matching
  pair, with \<^verbatim>\<open>NoAdapterError\<close> when "no registered adapter pair matches a given database
  or resource handle" (section 7).\<close>

definition wrapHandle :: "adapter_pair list \<Rightarrow> jsval \<Rightarrow> error + resource" where
  "wrapHandle registry handle =
     (case find (matchesResource handle) registry of
        None \<Rightarrow> Inl NoAdapterError
      | Some p \<Rightarrow> Inr (wrapResource (Resource p) handle))"

text \<open>Modelled from the spec: step 2 for one entry of \<^verbatim>\<open>resources\<close>. "If it is a bare
  handle, find a matching adapter pair as above for wrapping a single resource; if it is
  \<^verbatim>\<open>{resourceHandle, options}\<close>, wrap similarly and then attach \<^verbatim>\<open>options\<close> to the
  resulting Resource." The two properties are named \<^verbatim>\<open>resource\<close> and \<^verbatim>\<open>options\<close> in the
  JSDoc of \<^verbatim>\<open>AdminBroOptions\<close>.\<close>

fun convertResource :: "adapter_pair list \<Rightarrow> jsval \<Rightarrow> error + resource" where
  "convertResource registry (Obj spec) =
     (if has spec ''resource''
      then (case wrapHandle registry (get spec ''resource'') of
              Inl e \<Rightarrow> Inl e
            | Inr r \<Rightarrow> Inr (r\<lparr>resource_options := get spec ''options''\<rparr>))
      else wrapHandle registry (Obj spec))"
| "convertResource registry handle = wrapHandle registry handle"

text \<open>Modelled from the spec: step 2, "for each entry in \<^verbatim>\<open>resources\<close> (in given
  order)"; each entry gives one resource.\<close>

fun convertResources :: "adapter_pair list \<Rightarrow> jsval list \<Rightarrow> error + resource list" where
  "convertResources registry [] = Inr []"
| "convertResources registry (entry # rest) =
     (case convertResource registry entry of
        Inl e \<Rightarrow> Inl e
      | Inr r \<Rightarrow> (case convertResources registry rest of
                    Inl e \<Rightarrow> Inl e
                  | Inr rs \<Rightarrow> Inr (r # rs)))"

text \<open>Modelled from the spec: \<^verbatim>\<open>buildResources({ databases, resources })\<close>, step 3.
  "Concatenate both sequences, preserving the order: all database-derived resources first
  (in database order), then explicitly listed resources (in listing order). No
  de-duplication is performed."\<close>

definition buildResources ::
  "adapter_pair list \<Rightarrow> jsval list \<Rightarrow> jsval list \<Rightarrow> error + resource list"
where
  "buildResources registry databases resources' =
     (case convertDatabases registry databases of
        Inl e \<Rightarrow> Inl e
      | Inr ds \<Rightarrow> (case convertResources registry resources' of
                    Inl e \<Rightarrow> Inl e
                  | Inr rs \<Rightarrow> Inr (ds @ rs)))"

section \<open>The Admin instance\<close>

record admin =
  resources :: "resource list"
  options :: jsobj
  DashboardPage :: jsval

text \<open>
  \<^verbatim>\<open>constructor(options = {})\<close> (lines 140-157). \<^verbatim>\<open>_.merge(defaults, options)\<close> writes
  into the module's \<^verbatim>\<open>defaults\<close> and returns that same object, so \<^verbatim>\<open>this.options\<close> and
  \<^verbatim>\<open>defaults\<close> have the same contents from line 151 on; line 156 reads
  \<^verbatim>\<open>defaults.dashboard\<close> after the merge. There is no \<^verbatim>\<open>try\<close>: what the factory throws
  leaves the constructor as it is, after line 151 has run. The argument is a plain
  object; a call without argument has the empty object, \<open>[]\<close>.

  The result is \<open>None\<close> where the merge is (see \<open>baseMergeDeep\<close>), and where
  \<^verbatim>\<open>databases\<close> or \<^verbatim>\<open>resources\<close> of the merged options is not an array, which the
  factory's description does not cover.
\<close>

definition "constructor" ::
  "module_state \<Rightarrow> jsobj \<Rightarrow> ((error + admin) \<times> module_state) option"
where
  "constructor M options' =
     (case merge (defaults M) options' of
        None \<Rightarrow> None
      | Some merged \<Rightarrow>
          (case (get merged ''databases'', get merged ''resources'') of
             (Arr databases dps, Arr resources' rps) \<Rightarrow>
               (case buildResources (registeredAdapters M) databases resources' of
                  Inl e \<Rightarrow> Some (Inl e, M\<lparr>defaults := merged\<rparr>)
                | Inr rs \<Rightarrow>
                    Some (Inr \<lparr>resources = rs,
                               options = merged,
                               DashboardPage =
                                 (if truthy (get options' ''dashboard'')
                                  then get options' ''dashboard''
                                  else get merged ''dashboard'')\<rparr>,
                          M\<lparr>defaults := merged\<rparr>))
           | _ \<Rightarrow> None))"

text \<open>\<^verbatim>\<open>findResource(resourceId)\<close> (lines 199-201): \<^verbatim>\<open>Array.prototype.find\<close> returns the
  first element that satisfies the test, and \<^verbatim>\<open>undefined\<close> (here \<open>None\<close>) when there is
  none.\<close>

definition findResource :: "admin \<Rightarrow> string \<Rightarrow> resource option" where
  "findResource this resourceId = find (\<lambda>m. resource_id m = resourceId) (resources this)"

text \<open>\<^verbatim>\<open>static async renderLogin({ action, errorMessage })\<close> (lines 190-192). The
  \<^verbatim>\<open>Renderer\<close> class (\<^verbatim>\<open>./backend/utils/renderer\<close>) is a collaborator: the parameter
  \<open>render\<close> is what \<^verbatim>\<open>new Renderer(view, data).render()\<close> evaluates to.\<close>

definition renderLogin :: "(string \<Rightarrow> jsobj \<Rightarrow> 'markup) \<Rightarrow> jsobj \<Rightarrow> 'markup" where
  "renderLogin render arg =
     render ''pages/login''
       [(''action'', get arg ''action''), (''errorMessage'', get arg ''errorMessage'')]"

section \<open>An adapter for the examples\<close>

text \<open>The registry of the spec's scenario, \<^verbatim>\<open>[{isAdapterFor: x => x.type === 'mongo', ...}]\<close>:
  an adapter whose database handles yield two resources, and a second adapter that accepts
  every handle.\<close>

definition mongoAdapter :: adapter_pair where
  "mongoAdapter =
     \<lparr>Database = \<lparr>isAdapterFor = Method (\<lambda>x. getIn x [''type''] = Str ''mongo'')\<rparr>,
      Resource = \<lparr>isAdapterFor = Method (\<lambda>x. getIn x [''type''] = Str ''mongo''),
                  wrapDatabase = (\<lambda>x. [\<lparr>resource_id = ''users'', resource_options = Undefined\<rparr>,
                                        \<lparr>resource_id = ''posts'', resource_options = Undefined\<rparr>]),
                  wrapResource = (\<lambda>x. \<lparr>resource_id = ''model'', resource_options = Undefined\<rparr>)\<rparr>\<rparr>"

definition catchAllAdapter :: adapter_pair where
  "catchAllAdapter =
     \<lparr>Database = \<lparr>isAdapterFor = Method (\<lambda>x. True)\<rparr>,
      Resource = \<lparr>isAdapterFor = Method (\<lambda>x. True),
                  wrapDatabase = (\<lambda>x. [\<lparr>resource_id = ''table'', resource_options = Undefined\<rparr>]),
                  wrapResource = (\<lambda>x. \<lparr>resource_id = ''row'', resource_options = Undefined\<rparr>)\<rparr>\<rparr>"

section \<open>Properties of the merge\<close>

lemma has_iff_keys: "has object key \<longleftrightarrow> key \<in> fst ` set object"
  by (induction object) auto

lemma get_absent: "\<not> has object key \<Longrightarrow> get object key = Undefined"
  by (induction object) auto

lemma get_baseAssignValue:
  "get (baseAssignValue object key v) k = (if k = key then v else get object k)"
  by (induction object) auto


lemma get_assignMergeValue:
  "get (assignMergeValue object key v) k =
     (if k = key \<and> v \<noteq> Undefined then v else get object k)"
  by (auto simp: assignMergeValue_def get_baseAssignValue get_absent)


lemma baseMergeDeep_defined:
  "isObject srcValue \<Longrightarrow> baseMergeDeep objValue srcValue = Some newValue \<Longrightarrow> isObject newValue"
  by (cases srcValue) (auto split: jsval.splits if_splits option.splits prod.splits)


lemma baseMerge_frame:
  "baseMerge object source = Some r \<Longrightarrow> \<not> has source k \<Longrightarrow> get r k = get object k"
proof (induction source arbitrary: object)
  case Nil
  then show ?case by simp
next
  case (Cons p source)
  obtain key srcValue where p: "p = (key, srcValue)" by (cases p)
  from Cons.prems p obtain nv where
    step: "baseMerge (assignMergeValue object key nv) source = Some r"
    by (auto split: if_splits option.splits)
  from Cons.prems p have "k \<noteq> key" "\<not> has source k" by auto
  with Cons.IH [OF step] show ?case
    by (simp add: get_assignMergeValue)
qed

lemma baseMerge_at:
  "distinct (map fst source) \<Longrightarrow> (k, srcValue) \<in> set source \<Longrightarrow>
   baseMerge object source = Some r \<Longrightarrow> mergedValue (get object k) srcValue = Some (get r k)"
proof (induction source arbitrary: object)
  case Nil
  then show ?case by simp
next
  case (Cons p source)
  obtain key v where p: "p = (key, v)" by (cases p)
  show ?case
  proof (cases "key = k")
    case True
    with Cons.prems p have v: "v = srcValue" and nothas: "\<not> has source k"
      by (auto simp: has_iff_keys rev_image_eqI)
    show ?thesis
    proof (cases "isObject srcValue")
      case True
      with Cons.prems(3) p v \<open>key = k\<close> obtain nv where
        nv: "baseMergeDeep (get object k) srcValue = Some nv"
        and step: "baseMerge (assignMergeValue object k nv) source = Some r"
        by (auto split: option.splits)
      from baseMergeDeep_defined [OF True nv] have "nv \<noteq> Undefined" by auto
      with baseMerge_frame [OF step nothas] have "get r k = nv"
        by (simp add: get_assignMergeValue)
      with nv True show ?thesis by (simp add: mergedValue_def)
    next
      case False
      with Cons.prems(3) p v \<open>key = k\<close> have
        step: "baseMerge (assignMergeValue object k srcValue) source = Some r"
        by auto
      from baseMerge_frame [OF step nothas] False show ?thesis
        by (simp add: get_assignMergeValue mergedValue_def)
    qed
  next
    case False
    from Cons.prems p obtain nv where
      step: "baseMerge (assignMergeValue object key nv) source = Some r"
      by (auto split: if_splits option.splits)
    from Cons.prems p False have "distinct (map fst source)" "(k, srcValue) \<in> set source"
      by auto
    from Cons.IH [OF this step] False show ?thesis
      by (simp add: get_assignMergeValue)
  qed
qed

lemma has_append: "has (xs @ ys) k \<longleftrightarrow> has xs k \<or> has ys k"
  by (induction xs) auto

lemma baseAssignValue_new: "\<not> has object key \<Longrightarrow> baseAssignValue object key v = object @ [(key, v)]"
  by (induction object) auto

lemma assignMergeValue_new: "\<not> has object key \<Longrightarrow> assignMergeValue object key v = object @ [(key, v)]"
  by (auto simp: assignMergeValue_def baseAssignValue_new get_absent)

lemma assignMergeIndex_new: "assignMergeIndex xs (length xs) v = xs @ [v]"
  by (auto simp: assignMergeIndex_def setIndex_def getIndex_def)

lemma arrayDest_fresh: "\<not> mergedInto d (Arr src sps) \<Longrightarrow> arrayDest d = Some ([], [])"
  by (cases d) auto

lemma assignMergeKey_new:
  "arrayIndex key = None \<Longrightarrow> key \<noteq> ''length'' \<Longrightarrow> \<not> has ps key \<Longrightarrow>
   assignMergeKey xs ps key v = Some (xs, ps @ [(key, v)])"
  by (auto simp: assignMergeKey_def arrGet_def arrHas_def arrSet_def baseAssignValue_new get_absent)

lemma merge_into_fresh_aux:
  "wellFormed v \<Longrightarrow> \<forall>d. isObject v \<longrightarrow> \<not> mergedInto d v \<longrightarrow> baseMergeDeep d v = Some v"
  "wellFormedProps src \<Longrightarrow> distinct (map fst src) \<longrightarrow>
     (\<forall>acc ys. (\<forall>k. has src k \<longrightarrow> \<not> has acc k) \<longrightarrow>
        baseMerge acc src = Some (acc @ src)
        \<and> (list_all (\<lambda>k. arrayIndex k = None \<and> k \<noteq> ''length'') (map fst src) \<longrightarrow>
             baseMergeKeys ys acc src = Some (ys, acc @ src)))"
  "wellFormedAll elems \<Longrightarrow> \<forall>xs. baseMergeArr xs (length xs) elems = Some (xs @ elems)"
proof (induction v and src and elems rule: wellFormed_wellFormedProps_wellFormedAll.induct)
  case (1 xs ps)
  from "1.prems" have wf: "wellFormedAll xs" "wellFormedProps ps" "distinct (map fst ps)"
    "list_all (\<lambda>k. arrayIndex k = None \<and> k \<noteq> ''length'') (map fst ps)" by auto
  from "1.IH"(1) [OF wf(1)] have "baseMergeArr [] (length ([] :: jsval list)) xs = Some ([] @ xs)"
    by blast
  then have elems: "baseMergeArr [] 0 xs = Some xs" by simp
  from "1.IH"(2) wf have "\<forall>acc ys. (\<forall>k. has ps k \<longrightarrow> \<not> has acc k) \<longrightarrow>
        baseMerge acc ps = Some (acc @ ps)
        \<and> (list_all (\<lambda>k. arrayIndex k = None \<and> k \<noteq> ''length'') (map fst ps) \<longrightarrow>
             baseMergeKeys ys acc ps = Some (ys, acc @ ps))"
    by blast
  from this [THEN spec, of "[]", THEN spec, of xs] wf(4)
  have props: "baseMergeKeys xs [] ps = Some (xs, ps)" by simp
  show ?case
  proof (intro allI impI)
    fix d assume "\<not> mergedInto d (Arr xs ps)"
    then have "arrayDest d = Some ([], [])" by (rule arrayDest_fresh)
    with elems props show "baseMergeDeep d (Arr xs ps) = Some (Arr xs ps)" by simp
  qed
next
  case (2 kvs)
  from "2.prems" have wf: "wellFormedProps kvs" "distinct (map fst kvs)" by auto
  from "2.IH" wf have "\<forall>acc ys. (\<forall>k. has kvs k \<longrightarrow> \<not> has acc k) \<longrightarrow>
        baseMerge acc kvs = Some (acc @ kvs)
        \<and> (list_all (\<lambda>k. arrayIndex k = None \<and> k \<noteq> ''length'') (map fst kvs) \<longrightarrow>
             baseMergeKeys ys acc kvs = Some (ys, acc @ kvs))"
    by blast
  from this [THEN spec, of "[]", THEN spec, of "[]"]
  have "baseMerge [] kvs = Some kvs" by simp
  then show ?case by (auto split: jsval.splits)
next
  case (5 k v rest)
  from "5.prems" have wf: "wellFormed v" "wellFormedProps rest" by auto
  have nv: "isObject v \<Longrightarrow> baseMergeDeep Undefined v = Some v"
    using "5.IH"(1) [OF wf(1)] by simp
  show ?case
  proof (intro impI allI)
    fix acc ys
    assume d: "distinct (map fst ((k, v) # rest))"
      and fresh: "\<forall>k'. has ((k, v) # rest) k' \<longrightarrow> \<not> has acc k'"
    from fresh have nothas: "\<not> has acc k" by auto
    from d have dr: "distinct (map fst rest)" by simp
    from d fresh have fresh': "\<forall>k'. has rest k' \<longrightarrow> \<not> has (acc @ [(k, v)]) k'"
      by (auto simp: has_append has_iff_keys)
    from "5.IH"(2) wf dr fresh'
    have IH: "baseMerge (acc @ [(k, v)]) rest = Some ((acc @ [(k, v)]) @ rest)"
      "list_all (\<lambda>k. arrayIndex k = None \<and> k \<noteq> ''length'') (map fst rest) \<Longrightarrow>
         baseMergeKeys ys (acc @ [(k, v)]) rest = Some (ys, (acc @ [(k, v)]) @ rest)"
      by blast+
    have 1: "baseMerge acc ((k, v) # rest) = Some (acc @ (k, v) # rest)"
      using nv nothas IH(1) by (simp add: assignMergeValue_new get_absent)
    have 2: "baseMergeKeys ys acc ((k, v) # rest) = Some (ys, acc @ (k, v) # rest)"
      if "list_all (\<lambda>k. arrayIndex k = None \<and> k \<noteq> ''length'') (map fst ((k, v) # rest))"
    proof -
      from that have key: "arrayIndex k = None" "k \<noteq> ''length''"
        and r: "list_all (\<lambda>k. arrayIndex k = None \<and> k \<noteq> ''length'') (map fst rest)" by auto
      have get: "arrGet ys acc k = Undefined"
        using key nothas by (simp add: arrGet_def get_absent)
      from nv get IH(2) [OF r] assignMergeKey_new [OF key nothas] show ?thesis by simp
    qed
    from 1 2 show "baseMerge acc ((k, v) # rest) = Some (acc @ (k, v) # rest)
        \<and> (list_all (\<lambda>k. arrayIndex k = None \<and> k \<noteq> ''length'') (map fst ((k, v) # rest)) \<longrightarrow>
             baseMergeKeys ys acc ((k, v) # rest) = Some (ys, acc @ (k, v) # rest))"
      by blast
  qed
next
  case (7 x xs')
  from "7.prems" have wf: "wellFormed x" "wellFormedAll xs'" by auto
  show ?case
  proof
    fix xs
    have nv: "isObject x \<Longrightarrow> baseMergeDeep (getIndex xs (length xs)) x = Some x"
      using "7.IH"(1) [OF wf(1)] by (simp add: getIndex_def)
    from "7.IH"(2) [OF wf(2)] have "baseMergeArr (xs @ [x]) (length (xs @ [x])) xs' = Some ((xs @ [x]) @ xs')"
      by blast
    with nv show "baseMergeArr xs (length xs) (x # xs') = Some (xs @ x # xs')"
      by (simp add: assignMergeIndex_new)
  qed
qed simp_all

lemma merge_into_fresh:
  "wellFormed v \<Longrightarrow> isObject v \<Longrightarrow> \<not> mergedInto d v \<Longrightarrow> baseMergeDeep d v = Some v"
  using merge_into_fresh_aux(1) by blast

lemma baseMergeArr_fresh:
  "wellFormedAll elems \<Longrightarrow> baseMergeArr xs (length xs) elems = Some (xs @ elems)"
  using merge_into_fresh_aux(3) by blast

lemma baseMergeKeys_fresh:
  "wellFormed (Arr xs ps) \<Longrightarrow> baseMergeKeys ys [] ps = Some (ys, ps)"
proof -
  assume wf: "wellFormed (Arr xs ps)"
  then have "wellFormedProps ps" by simp
  from merge_into_fresh_aux(2) [OF this] wf
  have "\<forall>acc ys. (\<forall>k. has ps k \<longrightarrow> \<not> has acc k) \<longrightarrow>
        baseMerge acc ps = Some (acc @ ps)
        \<and> (list_all (\<lambda>k. arrayIndex k = None \<and> k \<noteq> ''length'') (map fst ps) \<longrightarrow>
             baseMergeKeys ys acc ps = Some (ys, acc @ ps))"
    by simp
  from this [THEN spec, of "[]", THEN spec, of ys] wf show ?thesis by simp
qed

lemma get_of_distinct: "distinct (map fst object) \<Longrightarrow> (k, v) \<in> set object \<Longrightarrow> get object k = v"
  by (induction object) (auto simp: rev_image_eqI)

lemma has_witness: "has object k \<Longrightarrow> \<exists>v. (k, v) \<in> set object"
  by (auto simp: has_iff_keys)


lemma baseMerge_supplied:
  assumes "distinct (map fst source)" "get source k = v" "v \<noteq> Undefined" "baseMerge object source = Some r"
  shows "mergedValue (get object k) v = Some (get r k)"
proof -
  from assms(2,3) have "has source k" using get_absent by blast
  then obtain w where w: "(k, w) \<in> set source" using has_witness by blast
  with assms(1,2) have "w = v" using get_of_distinct by fastforce
  with baseMerge_at [OF assms(1) w assms(4)] show ?thesis by simp
qed

lemma assignMergeIndex_overlay:
  "v \<noteq> Undefined \<Longrightarrow> assignMergeIndex (pre @ d # ds) (length pre) v = pre @ v # ds"
  "assignMergeIndex (pre @ d # ds) (length pre) Undefined = pre @ d # ds"
  by (auto simp: assignMergeIndex_def setIndex_def getIndex_def nth_append)

lemma noneMergedInto_Nil: "noneMergedInto [] us"
  by (cases us) auto

lemma baseMergeArr_overlay:
  "wellFormedAll us \<Longrightarrow> noneMergedInto ds us \<Longrightarrow>
   baseMergeArr (pre @ ds) (length pre) us = Some (pre @ overlay ds us)"
proof (induction ds us arbitrary: pre rule: overlay.induct)
  case (1 ds)
  then show ?case by simp
next
  case (2 u us)
  from "2.prems" have wf: "wellFormed u" "wellFormedAll us" by auto
  have nv: "isObject u \<Longrightarrow> baseMergeDeep Undefined u = Some u"
    using merge_into_fresh [where d = Undefined, OF wf(1)] by simp
  from "2.IH" [where pre = "pre @ [u]", OF wf(2) noneMergedInto_Nil]
  have "baseMergeArr (pre @ [u]) (Suc (length pre)) us = Some (pre @ u # overlay [] us)" by simp
  with nv show ?case
    by (simp add: getIndex_def assignMergeIndex_new)
next
  case (3 d ds u us)
  from "3.prems" have wf: "wellFormed u" "wellFormedAll us"
    and nm: "\<not> mergedInto d u" "noneMergedInto ds us" by auto
  have get: "getIndex (pre @ d # ds) (length pre) = d" by (simp add: getIndex_def)
  have nv: "isObject u \<Longrightarrow> baseMergeDeep d u = Some u"
    using merge_into_fresh [OF wf(1) _ nm(1)] by simp
  let ?x = "if u = Undefined then d else u"
  have step: "assignMergeIndex (pre @ d # ds) (length pre) u = (pre @ [?x]) @ ds"
    using assignMergeIndex_overlay(1) [of u pre d ds] assignMergeIndex_overlay(2) [of pre d ds]
    by auto
  from "3.IH" [where pre = "pre @ [?x]", OF wf(2) nm(2)]
  have "baseMergeArr ((pre @ [?x]) @ ds) (Suc (length pre)) us = Some ((pre @ [?x]) @ overlay ds us)"
    by simp
  with nv get step show ?case by simp
qed


lemma overlay_Nil: "overlay [] us = us"
  by (induction us) auto




text \<open>A source array merged where no element and no other property is merged into
  one of the destination.\<close>

lemma baseMergeDeep_array:
  assumes "wellFormed (Arr us ps)" "arrayDest dv = Some (ds, dps)" "noneMergedInto ds us"
    "\<forall>k. has ps k \<longrightarrow> \<not> has dps k"
  shows "baseMergeDeep dv (Arr us ps) = Some (Arr (overlay ds us) (dps @ ps))"
proof -
  from assms(1) have wf: "wellFormedAll us" "wellFormedProps ps" "distinct (map fst ps)"
    "list_all (\<lambda>k. arrayIndex k = None \<and> k \<noteq> ''length'') (map fst ps)" by auto
  from baseMergeArr_overlay [OF wf(1) assms(3), of "[]"]
  have elems: "baseMergeArr ds 0 us = Some (overlay ds us)" by simp
  from merge_into_fresh_aux(2) [OF wf(2)] wf(3)
  have "\<forall>acc ys. (\<forall>k. has ps k \<longrightarrow> \<not> has acc k) \<longrightarrow>
        baseMerge acc ps = Some (acc @ ps)
        \<and> (list_all (\<lambda>k. arrayIndex k = None \<and> k \<noteq> ''length'') (map fst ps) \<longrightarrow>
             baseMergeKeys ys acc ps = Some (ys, acc @ ps))"
    by simp
  from this [THEN spec, of dps, THEN spec, of "overlay ds us"] wf(4) assms(4)
  have "baseMergeKeys (overlay ds us) dps ps = Some (overlay ds us, dps @ ps)" by simp
  with elems assms(2) show ?thesis by simp
qed

lemma merged_array_over_empty:
  assumes "distinct (map fst source)" "get source k = Arr us ps" "wellFormed (Arr us ps)"
    "get object k = Arr [] []" "baseMerge object source = Some r"
  shows "get r k = Arr us ps"
proof -
  have "mergedValue (Arr [] []) (Arr us ps) = Some (get r k)"
    using baseMerge_supplied [OF assms(1,2) _ assms(5)] assms(4) by simp
  moreover have "baseMergeDeep (Arr [] []) (Arr us ps) = Some (Arr (overlay [] us) ([] @ ps))"
    by (rule baseMergeDeep_array [OF assms(3)]) (simp_all add: noneMergedInto_Nil)
  ultimately show ?thesis by (simp add: mergedValue_def overlay_Nil)
qed





lemma assignMergeIndex_frame:
  "k < i \<Longrightarrow> k < length xs \<Longrightarrow> assignMergeIndex xs i v ! k = xs ! k"
  by (auto simp: assignMergeIndex_def setIndex_def nth_append)

lemma assignMergeIndex_length:
  "length xs \<le> length (assignMergeIndex xs i v)"
  by (auto simp: assignMergeIndex_def setIndex_def)

lemma assignMergeIndex_at:
  "v \<noteq> Undefined \<Longrightarrow> i < length (assignMergeIndex xs i v) \<and> assignMergeIndex xs i v ! i = v"
  by (auto simp: assignMergeIndex_def setIndex_def getIndex_def nth_append split: if_splits)

lemma baseMergeArr_step:
  assumes "baseMergeArr xs i (u # us) = Some r"
  shows "\<exists>nv. baseMergeArr (assignMergeIndex xs i nv) (Suc i) us = Some r
              \<and> (assignedAsIs u \<longrightarrow> nv = u)"
proof (cases "isObject u")
  case True
  with assms obtain nv where nv: "baseMergeDeep (getIndex xs i) u = Some nv"
    "baseMergeArr (assignMergeIndex xs i nv) (Suc i) us = Some r"
    by (auto split: option.splits)
  have "nv = u" if "assignedAsIs u" using that nv(1) by (cases u) auto
  with nv(2) show ?thesis by blast
next
  case False
  with assms have "baseMergeArr (assignMergeIndex xs i u) (Suc i) us = Some r" by simp
  then show ?thesis by blast
qed

lemma baseMergeArr_frame:
  "baseMergeArr xs i us = Some r \<Longrightarrow> k < i \<Longrightarrow> k < length xs \<Longrightarrow>
   k < length r \<and> r ! k = xs ! k"
proof (induction us arbitrary: xs i)
  case Nil
  then show ?case by simp
next
  case (Cons u us)
  from baseMergeArr_step [OF Cons.prems(1)] obtain nv where
    step: "baseMergeArr (assignMergeIndex xs i nv) (Suc i) us = Some r"
    by blast
  from Cons.prems have "k < Suc i" "k < length (assignMergeIndex xs i nv)"
    using assignMergeIndex_length [where xs = xs and i = i and v = nv] by auto
  from Cons.IH [OF step this] Cons.prems show ?case
    by (simp add: assignMergeIndex_frame)
qed

lemma baseMergeArr_assigned:
  "baseMergeArr xs i us = Some r \<Longrightarrow> j < length us \<Longrightarrow> assignedAsIs (us ! j) \<Longrightarrow>
   i + j < length r \<and> r ! (i + j) = us ! j"
proof (induction us arbitrary: xs i j)
  case Nil
  then show ?case by simp
next
  case (Cons u us)
  from baseMergeArr_step [OF Cons.prems(1)] obtain nv where
    step: "baseMergeArr (assignMergeIndex xs i nv) (Suc i) us = Some r"
    and nv: "assignedAsIs u \<Longrightarrow> nv = u"
    by blast
  show ?case
  proof (cases j)
    case 0
    with Cons.prems nv have u: "nv = u" "u \<noteq> Undefined" by auto
    from assignMergeIndex_at [where v = u and xs = xs and i = i] u
    have "i < length (assignMergeIndex xs i nv)" "assignMergeIndex xs i nv ! i = u" by auto
    with baseMergeArr_frame [OF step, of i] 0 show ?thesis by simp
  next
    case (Suc j')
    with Cons.prems have "j' < length us" "assignedAsIs (us ! j')" by auto
    from Cons.IH [OF step this] Suc show ?thesis by simp
  qed
qed

lemma assignMergeKey_named:
  "arrayIndex key = None \<Longrightarrow> key \<noteq> ''length'' \<Longrightarrow> assignMergeKey xs ps key v = Some (ys, qs) \<Longrightarrow>
   ys = xs"
  by (auto simp: assignMergeKey_def arrSet_def split: if_splits)

lemma baseMergeKeys_named:
  "list_all (\<lambda>k. arrayIndex k = None \<and> k \<noteq> ''length'') (map fst src) \<Longrightarrow>
   baseMergeKeys xs ps src = Some (ys, qs) \<Longrightarrow> ys = xs"
proof (induction src arbitrary: ps)
  case Nil
  then show ?case by simp
next
  case (Cons p src)
  obtain key v where p: "p = (key, v)" by (cases p)
  from Cons.prems p obtain nv xs' ps' where
    a: "assignMergeKey xs ps key nv = Some (xs', ps')"
    and rest: "baseMergeKeys xs' ps' src = Some (ys, qs)"
    by (auto split: if_splits option.splits)
  from Cons.prems p have key: "arrayIndex key = None" "key \<noteq> ''length''"
    and r: "list_all (\<lambda>k. arrayIndex k = None \<and> k \<noteq> ''length'') (map fst src)" by auto
  from assignMergeKey_named [OF key a] have "xs' = xs" .
  with Cons.IH [OF r] rest show ?case by simp
qed

lemma merged_array_keeps_assigned:
  assumes "distinct (map fst source)" "get source k = Arr us ps"
    "list_all (\<lambda>k. arrayIndex k = None \<and> k \<noteq> ''length'') (map fst ps)"
    "entry \<in> set us" "assignedAsIs entry" "baseMerge object source = Some r"
  shows "\<exists>merged mps. get r k = Arr merged mps \<and> entry \<in> set merged"
proof -
  have mv: "mergedValue (get object k) (Arr us ps) = Some (get r k)"
    using baseMerge_supplied [OF assms(1,2) _ assms(6)] by simp
  then obtain ds dps xs merged mps where m: "baseMergeArr ds 0 us = Some xs"
    and ks: "baseMergeKeys xs dps ps = Some (merged, mps)" and r: "get r k = Arr merged mps"
    by (auto simp: mergedValue_def split: option.splits prod.splits)
  from baseMergeKeys_named [OF assms(3) ks] have same: "merged = xs" .
  from assms(4) obtain j where j: "j < length us" "us ! j = entry"
    by (auto simp: in_set_conv_nth)
  from baseMergeArr_assigned [OF m j(1)] j(2) assms(5) have "j < length xs" "xs ! j = entry"
    by auto
  then have "entry \<in> set xs" by (auto simp: in_set_conv_nth)
  with r same show ?thesis by blast
qed























section \<open>Properties of the factory and the constructor\<close>

lemma convertDatabase_error: "convertDatabase registry entry = Inl e \<Longrightarrow> e = NoAdapterError"
  by (auto simp: convertDatabase_def split: option.splits)

lemma convertDatabases_Inr:
  "convertDatabases registry databases = Inr rs \<Longrightarrow>
   \<exists>yields. list_all2 (\<lambda>entry y. convertDatabase registry entry = Inr y) databases yields
            \<and> rs = concat yields"
proof (induction databases arbitrary: rs)
  case Nil
  then show ?case by simp
next
  case (Cons entry rest)
  from Cons.prems obtain y rs' where
    y: "convertDatabase registry entry = Inr y"
    and rs': "convertDatabases registry rest = Inr rs'"
    and rs: "rs = y @ rs'"
    by (auto split: sum.splits)
  from Cons.IH [OF rs'] obtain yields where
    "list_all2 (\<lambda>entry y. convertDatabase registry entry = Inr y) rest yields" "rs' = concat yields"
    by blast
  with y rs have "list_all2 (\<lambda>entry y. convertDatabase registry entry = Inr y) (entry # rest) (y # yields)
    \<and> rs = concat (y # yields)" by simp
  then show ?case by blast
qed

lemma convertResources_Inr:
  "convertResources registry specs = Inr rs \<Longrightarrow>
   list_all2 (\<lambda>spec r. convertResource registry spec = Inr r) specs rs"
  by (induction specs arbitrary: rs) (auto split: sum.splits)

lemma convertDatabases_unmatched:
  "entry \<in> set databases \<Longrightarrow> find (matchesDatabase entry) registry = None \<Longrightarrow>
   convertDatabases registry databases = Inl NoAdapterError"
proof (induction databases)
  case Nil
  then show ?case by simp
next
  case (Cons d rest)
  show ?case
  proof (cases "convertDatabase registry d")
    case (Inl e)
    then show ?thesis using convertDatabase_error by fastforce
  next
    case (Inr y)
    with Cons.prems have "entry \<in> set rest"
      by (auto simp: convertDatabase_def)
    with Cons Inr show ?thesis by simp
  qed
qed

lemma buildResources_databases_error:
  "convertDatabases registry databases = Inl e \<Longrightarrow> buildResources registry databases listed = Inl e"
  by (simp add: buildResources_def)

lemma constructor_Some:
  assumes "constructor M options' = Some (res, M')"
  obtains merged databases dps listed lps where
    "merge (defaults M) options' = Some merged"
    "get merged ''databases'' = Arr databases dps" "get merged ''resources'' = Arr listed lps"
    "M' = M\<lparr>defaults := merged\<rparr>"
    "res = (case buildResources (registeredAdapters M) databases listed of
              Inl e \<Rightarrow> Inl e
            | Inr built \<Rightarrow> Inr \<lparr>resources = built, options = merged,
                 DashboardPage = (if truthy (get options' ''dashboard'')
                                  then get options' ''dashboard'' else get merged ''dashboard'')\<rparr>)"
  using assms
  by (auto simp: constructor_def split: option.splits jsval.splits sum.splits)

section \<open>C1: the defaults object across two constructions\<close>

text \<open>
  C1. Constructing one Admin instance with \<^verbatim>\<open>{rootPath: '/xyz-admin'}\<close> and then another
  with \<^verbatim>\<open>{}\<close>, on the freshly loaded module: line 151 merges into the module's \<^verbatim>\<open>defaults\<close>
  object itself, so the first construction leaves \<^verbatim>\<open>defaults.rootPath\<close> at
  \<^verbatim>\<open>'/xyz-admin'\<close>, and the second instance, given no \<^verbatim>\<open>rootPath\<close>, has
  \<^verbatim>\<open>options.rootPath = '/xyz-admin'\<close> where the literal has \<^verbatim>\<open>'/admin'\<close>. The claim (the
  defaults object is left unchanged and no value of the first options reaches the second
  instance) does not hold of the code.
\<close>

theorem defaults_written_by_construction:
  "constructor loaded [(''rootPath'', Str ''/xyz-admin'')]
     = Some (Inr \<lparr>resources = [],
                  options = baseAssignValue defaults_literal ''rootPath'' (Str ''/xyz-admin''),
                  DashboardPage = DefaultDashboard\<rparr>,
             loaded\<lparr>defaults := baseAssignValue defaults_literal ''rootPath'' (Str ''/xyz-admin'')\<rparr>)
   \<and> constructor (loaded\<lparr>defaults := baseAssignValue defaults_literal ''rootPath'' (Str ''/xyz-admin'')\<rparr>) []
     = Some (Inr \<lparr>resources = [],
                  options = baseAssignValue defaults_literal ''rootPath'' (Str ''/xyz-admin''),
                  DashboardPage = DefaultDashboard\<rparr>,
             loaded\<lparr>defaults := baseAssignValue defaults_literal ''rootPath'' (Str ''/xyz-admin'')\<rparr>)
   \<and> get (baseAssignValue defaults_literal ''rootPath'' (Str ''/xyz-admin'')) ''rootPath'' = Str ''/xyz-admin''
   \<and> get defaults_literal ''rootPath'' = Str ''/admin''"
  by (simp add: constructor_def merge_def loaded_def defaults_literal_def assignMergeValue_def
      buildResources_def DefaultDashboard_def)

section \<open>C2: array-valued fields\<close>




section \<open>C3: adapter registration\<close>

text \<open>
  What \<open>registerAdapter\<close> does, in every state of the module. A call with a missing
  Database or Resource fails with the \<^verbatim>\<open>Error\<close> of line 168, a call with a member whose
  \<^verbatim>\<open>isAdapterFor\<close> is falsy fails with the \<^verbatim>\<open>Error\<close> of line 174, and both leave the state,
  hence the list of registered adapters, as it was. Every other call succeeds and appends
  exactly the pair at the end of the list.
\<close>

theorem registerAdapter_outcomes:
  "(Database' = None \<or> Resource' = None \<longrightarrow>
      registerAdapter M Database' Resource'
        = (Inl (Error ''Adapter has to have both Database and Resource''), M))
   \<and> (\<forall>D R. Database' = Some D \<and> Resource' = Some R
          \<and> (\<not> truthyProperty (isAdapterFor D) \<or> \<not> truthyProperty (isAdapterFor R)) \<longrightarrow>
      registerAdapter M Database' Resource'
        = (Inl (Error ''Adapter elements has to be subclassess of AdminBro.BaseResource nad AdminBro.BaseDatabase''), M))
   \<and> (\<forall>D R. Database' = Some D \<and> Resource' = Some R
          \<and> truthyProperty (isAdapterFor D) \<and> truthyProperty (isAdapterFor R) \<longrightarrow>
      registerAdapter M Database' Resource'
        = (Inr (), M\<lparr>registeredAdapters := registeredAdapters M @ [\<lparr>Database = D, Resource = R\<rparr>]\<rparr>))"
  by (auto simp: registerAdapter_def split: option.splits)

text \<open>The three outcomes, on a registry that holds one adapter.\<close>

theorem registerAdapter_outcomes_witness:
  "registerAdapter (loaded\<lparr>registeredAdapters := [catchAllAdapter]\<rparr>) None (Some (Resource mongoAdapter))
     = (Inl (Error ''Adapter has to have both Database and Resource''),
        loaded\<lparr>registeredAdapters := [catchAllAdapter]\<rparr>)
   \<and> registerAdapter (loaded\<lparr>registeredAdapters := [catchAllAdapter]\<rparr>)
        (Some \<lparr>isAdapterFor = Value Undefined\<rparr>) (Some (Resource mongoAdapter))
     = (Inl (Error ''Adapter elements has to be subclassess of AdminBro.BaseResource nad AdminBro.BaseDatabase''),
        loaded\<lparr>registeredAdapters := [catchAllAdapter]\<rparr>)
   \<and> registerAdapter (loaded\<lparr>registeredAdapters := [catchAllAdapter]\<rparr>)
        (Some (Database mongoAdapter)) (Some (Resource mongoAdapter))
     = (Inr (), loaded\<lparr>registeredAdapters := [catchAllAdapter, mongoAdapter]\<rparr>)"
  using
    registerAdapter_outcomes [of None "Some (Resource mongoAdapter)"
      "loaded\<lparr>registeredAdapters := [catchAllAdapter]\<rparr>"]
    registerAdapter_outcomes [of "Some \<lparr>isAdapterFor = Value Undefined\<rparr>" "Some (Resource mongoAdapter)"
      "loaded\<lparr>registeredAdapters := [catchAllAdapter]\<rparr>"]
    registerAdapter_outcomes [of "Some (Database mongoAdapter)" "Some (Resource mongoAdapter)"
      "loaded\<lparr>registeredAdapters := [catchAllAdapter]\<rparr>"]
  by (simp add: mongoAdapter_def)

text \<open>
  C3. The claim says that a call in which a member lacks the \<^verbatim>\<open>isAdapterFor\<close> capability
  fails and leaves the list as it was, and the comment of line 170 says the same of the
  code: "checking if both Database and Resource have at least isAdapterFor method". Line
  171 tests only that the two properties are truthy. With
  \<^verbatim>\<open>{Database: {isAdapterFor: true}, Resource: {isAdapterFor: true}}\<close>, whose members have
  no such method, the call succeeds on the freshly loaded module and the list has the
  pair.
\<close>

theorem non_method_isAdapterFor_registered:
  "registerAdapter loaded
      (Some \<lparr>isAdapterFor = Value (Bool True)\<rparr>)
      (Some \<lparr>isAdapterFor = Value (Bool True),
             wrapDatabase = wrapDatabase (Resource mongoAdapter),
             wrapResource = wrapResource (Resource mongoAdapter)\<rparr>)
     = (Inr (),
        loaded\<lparr>registeredAdapters :=
          [\<lparr>Database = \<lparr>isAdapterFor = Value (Bool True)\<rparr>,
            Resource = \<lparr>isAdapterFor = Value (Bool True),
                        wrapDatabase = wrapDatabase (Resource mongoAdapter),
                        wrapResource = wrapResource (Resource mongoAdapter)\<rparr>\<rparr>]\<rparr>)
   \<and> length (registeredAdapters (snd (registerAdapter loaded
      (Some \<lparr>isAdapterFor = Value (Bool True)\<rparr>)
      (Some \<lparr>isAdapterFor = Value (Bool True),
             wrapDatabase = wrapDatabase (Resource mongoAdapter),
             wrapResource = wrapResource (Resource mongoAdapter)\<rparr>)))) = 1"
  by (simp add: registerAdapter_def loaded_def)

section \<open>C4: the first registered adapter wins\<close>

text \<open>
  C4. When two valid pairs \<open>A\<close> and \<open>B\<close> are registered in this order on an empty registry
  and the database kinds of both accept a database handle, the registry is \<open>[A, B]\<close> and
  the factory selects \<open>A\<close> for the handle: its resources are those of \<open>A\<close>'s wrapper.
\<close>

theorem first_registered_adapter_wins:
  assumes "registeredAdapters M = []"
    and "isAdapterFor (Database A) = Method a" and "truthyProperty (isAdapterFor (Resource A))"
    and "isAdapterFor (Database B) = Method b" and "truthyProperty (isAdapterFor (Resource B))"
    and "a entry" and "b entry"
    and "M1 = snd (registerAdapter M (Some (Database A)) (Some (Resource A)))"
    and "M2 = snd (registerAdapter M1 (Some (Database B)) (Some (Resource B)))"
  shows "registeredAdapters M2 = [A, B]
         \<and> find (matchesDatabase entry) (registeredAdapters M2) = Some A
         \<and> convertDatabase (registeredAdapters M2) entry = Inr (wrapDatabase (Resource A) entry)
         \<and> buildResources (registeredAdapters M2) [entry] [] = Inr (wrapDatabase (Resource A) entry)"
proof -
  from assms have reg: "registeredAdapters M2 = [A, B]"
    by (auto simp: registerAdapter_def)
  from assms(2,6) have "matchesDatabase entry A" by (simp add: matchesDatabase_def)
  then show ?thesis
    by (simp add: reg convertDatabase_def buildResources_def)
qed

text \<open>The mongo adapter registered before the adapter that accepts everything.\<close>

theorem first_registered_adapter_wins_witness:
  "buildResources
     (registeredAdapters
        (snd (registerAdapter
               (snd (registerAdapter loaded (Some (Database mongoAdapter)) (Some (Resource mongoAdapter))))
               (Some (Database catchAllAdapter)) (Some (Resource catchAllAdapter)))))
     [Obj [(''type'', Str ''mongo'')]] []
   = Inr [\<lparr>resource_id = ''users'', resource_options = Undefined\<rparr>,
          \<lparr>resource_id = ''posts'', resource_options = Undefined\<rparr>]"
  using first_registered_adapter_wins [of loaded mongoAdapter
      "\<lambda>x. getIn x [''type''] = Str ''mongo''" catchAllAdapter "\<lambda>x. True"
      "Obj [(''type'', Str ''mongo'')]"
      "snd (registerAdapter loaded (Some (Database mongoAdapter)) (Some (Resource mongoAdapter)))"
      "snd (registerAdapter
               (snd (registerAdapter loaded (Some (Database mongoAdapter)) (Some (Resource mongoAdapter))))
               (Some (Database catchAllAdapter)) (Some (Resource catchAllAdapter)))"]
  by (simp add: loaded_def mongoAdapter_def catchAllAdapter_def registerAdapter_def
      buildResources_def convertDatabase_def matchesDatabase_def)

section \<open>C5: the resource list\<close>

text \<open>
  C5. With the mongo adapter registered, a first construction is given
  \<^verbatim>\<open>databases: [{type: 'mongo'}]\<close>; line 151 leaves this entry in \<^verbatim>\<open>defaults.databases\<close>. A
  second construction, given \<^verbatim>\<open>{databases: [], resources: []}\<close>, has the two resources of
  the earlier database in its list, where the factory yields none for these inputs and
  the claim says the length is the yield of the given databases plus the number of listed
  resources, here 0.
\<close>

theorem resources_of_earlier_databases:
  "constructor (loaded\<lparr>registeredAdapters := [mongoAdapter]\<rparr>)
     [(''databases'', Arr [Obj [(''type'', Str ''mongo'')]] [])]
   = Some (Inr \<lparr>resources = [\<lparr>resource_id = ''users'', resource_options = Undefined\<rparr>,
                               \<lparr>resource_id = ''posts'', resource_options = Undefined\<rparr>],
                  options = baseAssignValue defaults_literal ''databases'' (Arr [Obj [(''type'', Str ''mongo'')]] []),
                  DashboardPage = DefaultDashboard\<rparr>,
           \<lparr>defaults = baseAssignValue defaults_literal ''databases'' (Arr [Obj [(''type'', Str ''mongo'')]] []),
            registeredAdapters = [mongoAdapter]\<rparr>)
   \<and> constructor
       \<lparr>defaults = baseAssignValue defaults_literal ''databases'' (Arr [Obj [(''type'', Str ''mongo'')]] []),
        registeredAdapters = [mongoAdapter]\<rparr>
       [(''databases'', Arr [] []), (''resources'', Arr [] [])]
   = Some (Inr \<lparr>resources = [\<lparr>resource_id = ''users'', resource_options = Undefined\<rparr>,
                               \<lparr>resource_id = ''posts'', resource_options = Undefined\<rparr>],
                  options = baseAssignValue defaults_literal ''databases'' (Arr [Obj [(''type'', Str ''mongo'')]] []),
                  DashboardPage = DefaultDashboard\<rparr>,
           \<lparr>defaults = baseAssignValue defaults_literal ''databases'' (Arr [Obj [(''type'', Str ''mongo'')]] []),
            registeredAdapters = [mongoAdapter]\<rparr>)
   \<and> buildResources [mongoAdapter] [] [] = Inr []"
  by (simp add: constructor_def merge_def loaded_def defaults_literal_def assignMergeValue_def
      assignMergeIndex_def setIndex_def getIndex_def
      buildResources_def convertDatabase_def matchesDatabase_def mongoAdapter_def
      DefaultDashboard_def)

text \<open>
  What holds in every state of the module: the resource list of a constructed Admin
  instance is built from the \<^verbatim>\<open>databases\<close> and \<^verbatim>\<open>resources\<close> of its merged options (line
  153): the resources each database yields, in the order of the databases, followed by
  one resource for each listed resource, in listing order, with nothing removed; its
  length is the total yield of the databases plus the number of listed resources. On a
  module whose \<^verbatim>\<open>defaults\<close> still hold the empty arrays, these two sequences are the ones
  the caller gave.
\<close>

theorem resources_databases_then_listed:
  assumes "constructor M options' = Some (Inr this, M')"
  shows "\<exists>databases dps listed lps yields wrapped.
           get (options this) ''databases'' = Arr databases dps
         \<and> get (options this) ''resources'' = Arr listed lps
         \<and> list_all2 (\<lambda>entry y. convertDatabase (registeredAdapters M) entry = Inr y) databases yields
         \<and> list_all2 (\<lambda>spec r. convertResource (registeredAdapters M) spec = Inr r) listed wrapped
         \<and> resources this = concat yields @ wrapped
         \<and> length (resources this) = sum_list (map length yields) + length listed
         \<and> (\<forall>given gps. distinct (map fst options') \<and> get options' ''databases'' = Arr given gps
                \<and> wellFormed (Arr given gps) \<and> get (defaults M) ''databases'' = Arr [] []
              \<longrightarrow> databases = given)
         \<and> (\<forall>given gps. distinct (map fst options') \<and> get options' ''resources'' = Arr given gps
                \<and> wellFormed (Arr given gps) \<and> get (defaults M) ''resources'' = Arr [] []
              \<longrightarrow> listed = given)"
proof -
  from assms obtain merged databases dps listed lps where
    m: "merge (defaults M) options' = Some merged"
    and d: "get merged ''databases'' = Arr databases dps"
    and l: "get merged ''resources'' = Arr listed lps"
    and res: "Inr this = (case buildResources (registeredAdapters M) databases listed of
              Inl e \<Rightarrow> Inl e
            | Inr built \<Rightarrow> Inr \<lparr>resources = built, options = merged,
                 DashboardPage = (if truthy (get options' ''dashboard'')
                                  then get options' ''dashboard'' else get merged ''dashboard'')\<rparr>)"
    by (rule constructor_Some)
  from res obtain built where
    b: "buildResources (registeredAdapters M) databases listed = Inr built"
    and inst: "resources this = built" "options this = merged"
    by (auto split: sum.splits)
  from b obtain ds rs where
    ds: "convertDatabases (registeredAdapters M) databases = Inr ds"
    and rs: "convertResources (registeredAdapters M) listed = Inr rs"
    and built: "built = ds @ rs"
    by (auto simp: buildResources_def split: sum.splits)
  from convertDatabases_Inr [OF ds] obtain yields where
    y: "list_all2 (\<lambda>entry y. convertDatabase (registeredAdapters M) entry = Inr y) databases yields"
    and dsy: "ds = concat yields"
    by blast
  from convertResources_Inr [OF rs] have
    w: "list_all2 (\<lambda>spec r. convertResource (registeredAdapters M) spec = Inr r) listed rs" .
  then have len: "length rs = length listed" by (simp add: list_all2_lengthD)
  have g1: "databases = given" if "distinct (map fst options')" "get options' ''databases'' = Arr given gps"
    "wellFormed (Arr given gps)" "get (defaults M) ''databases'' = Arr [] []" for given gps
    using merged_array_over_empty [OF that(1,2,3,4)] m d by (simp add: merge_def)
  have g2: "listed = given" if "distinct (map fst options')" "get options' ''resources'' = Arr given gps"
    "wellFormed (Arr given gps)" "get (defaults M) ''resources'' = Arr [] []" for given gps
    using merged_array_over_empty [OF that(1,2,3,4)] m l by (simp add: merge_def)
  have "length (resources this) = sum_list (map length yields) + length listed"
    by (simp add: inst built dsy len length_concat)
  with d l y w inst built dsy g1 g2 show ?thesis
    by (intro exI [of _ databases] exI [of _ dps] exI [of _ listed] exI [of _ lps]
        exI [of _ yields] exI [of _ rs]) auto
qed

text \<open>One database that yields two resources and one listed resource with options.\<close>

theorem resources_databases_then_listed_witness:
  "constructor (loaded\<lparr>registeredAdapters := [mongoAdapter]\<rparr>)
     [(''databases'', Arr [Obj [(''type'', Str ''mongo'')]] []),
      (''resources'', Arr [Obj [(''resource'', Obj [(''type'', Str ''mongo'')]),
                                (''options'', Obj [(''name'', Str ''Article'')])]] [])]
   = Some (Inr \<lparr>resources = [\<lparr>resource_id = ''users'', resource_options = Undefined\<rparr>,
                               \<lparr>resource_id = ''posts'', resource_options = Undefined\<rparr>,
                               \<lparr>resource_id = ''model'',
                                resource_options = Obj [(''name'', Str ''Article'')]\<rparr>],
                  options =
                    baseAssignValue
                      (baseAssignValue defaults_literal ''databases'' (Arr [Obj [(''type'', Str ''mongo'')]] []))
                      ''resources''
                      (Arr [Obj [(''resource'', Obj [(''type'', Str ''mongo'')]),
                                 (''options'', Obj [(''name'', Str ''Article'')])]] []),
                  DashboardPage = DefaultDashboard\<rparr>,
           \<lparr>defaults =
              baseAssignValue
                (baseAssignValue defaults_literal ''databases'' (Arr [Obj [(''type'', Str ''mongo'')]] []))
                ''resources''
                (Arr [Obj [(''resource'', Obj [(''type'', Str ''mongo'')]),
                           (''options'', Obj [(''name'', Str ''Article'')])]] []),
            registeredAdapters = [mongoAdapter]\<rparr>)"
  (is "?c = Some (Inr ?this, ?M')")
proof -
  have c: "?c = Some (Inr ?this, ?M')"
    by (simp add: constructor_def merge_def loaded_def defaults_literal_def assignMergeValue_def
        assignMergeIndex_def setIndex_def getIndex_def
        buildResources_def convertDatabase_def matchesDatabase_def matchesResource_def
        wrapHandle_def mongoAdapter_def DefaultDashboard_def)
  from resources_databases_then_listed [OF c] c show ?thesis by simp
qed

section \<open>C6: lookup by identifier\<close>

text \<open>
  C6. \<open>findResource\<close> returns a value for every instance and identifier: the absent value
  exactly when no resource has the identifier; otherwise the first resource in list order
  whose \<^verbatim>\<open>id()\<close> is the identifier, which is the unique match when there is exactly one.
\<close>

theorem findResource_first_match:
  "(findResource this resourceId = None \<longleftrightarrow> (\<forall>m \<in> set (resources this). resource_id m \<noteq> resourceId))
   \<and> (\<forall>m. findResource this resourceId = Some m \<longleftrightarrow>
        (\<exists>i < length (resources this). resources this ! i = m \<and> resource_id m = resourceId
           \<and> (\<forall>j < i. resource_id (resources this ! j) \<noteq> resourceId)))
   \<and> (\<forall>m \<in> set (resources this). resource_id m = resourceId \<longrightarrow>
        (\<forall>m' \<in> set (resources this). resource_id m' = resourceId \<longrightarrow> m' = m) \<longrightarrow>
        findResource this resourceId = Some m)"
proof (intro conjI allI ballI impI)
  show "findResource this resourceId = None \<longleftrightarrow> (\<forall>m \<in> set (resources this). resource_id m \<noteq> resourceId)"
    by (auto simp: findResource_def find_None_iff)
next
  fix m
  show "findResource this resourceId = Some m \<longleftrightarrow>
        (\<exists>i < length (resources this). resources this ! i = m \<and> resource_id m = resourceId
           \<and> (\<forall>j < i. resource_id (resources this ! j) \<noteq> resourceId))"
    unfolding findResource_def find_Some_iff by auto
next
  fix m
  assume m: "m \<in> set (resources this)" "resource_id m = resourceId"
    and uniq: "\<forall>m' \<in> set (resources this). resource_id m' = resourceId \<longrightarrow> m' = m"
  from m have "find (\<lambda>m. resource_id m = resourceId) (resources this) \<noteq> None"
    by (auto simp: find_None_iff)
  then obtain m' where m': "find (\<lambda>m. resource_id m = resourceId) (resources this) = Some m'"
    by auto
  then have "m' \<in> set (resources this)" "resource_id m' = resourceId"
    by (auto simp: find_Some_iff)
  with uniq m' show "findResource this resourceId = Some m"
    by (simp add: findResource_def)
qed

text \<open>Two resources share the identifier \<^verbatim>\<open>posts\<close>; none has \<^verbatim>\<open>comments\<close>.\<close>

theorem findResource_first_match_witness:
  "findResource \<lparr>resources = [\<lparr>resource_id = ''users'', resource_options = Undefined\<rparr>,
                                \<lparr>resource_id = ''posts'', resource_options = Str ''first''\<rparr>,
                                \<lparr>resource_id = ''posts'', resource_options = Str ''second''\<rparr>],
                  options = defaults_literal, DashboardPage = DefaultDashboard\<rparr> ''posts''
     = Some \<lparr>resource_id = ''posts'', resource_options = Str ''first''\<rparr>
   \<and> findResource \<lparr>resources = [\<lparr>resource_id = ''users'', resource_options = Undefined\<rparr>,
                                \<lparr>resource_id = ''posts'', resource_options = Str ''first''\<rparr>,
                                \<lparr>resource_id = ''posts'', resource_options = Str ''second''\<rparr>],
                  options = defaults_literal, DashboardPage = DefaultDashboard\<rparr> ''users''
     = Some \<lparr>resource_id = ''users'', resource_options = Undefined\<rparr>
   \<and> findResource \<lparr>resources = [\<lparr>resource_id = ''users'', resource_options = Undefined\<rparr>,
                                \<lparr>resource_id = ''posts'', resource_options = Str ''first''\<rparr>,
                                \<lparr>resource_id = ''posts'', resource_options = Str ''second''\<rparr>],
                  options = defaults_literal, DashboardPage = DefaultDashboard\<rparr> ''comments''
     = None"
  using findResource_first_match [of
      "\<lparr>resources = [\<lparr>resource_id = ''users'', resource_options = Undefined\<rparr>,
                                \<lparr>resource_id = ''posts'', resource_options = Str ''first''\<rparr>,
                                \<lparr>resource_id = ''posts'', resource_options = Str ''second''\<rparr>],
                  options = defaults_literal, DashboardPage = DefaultDashboard\<rparr>" "''comments''"]
  by (simp add: findResource_def)

section \<open>C7: failures of the construction\<close>

text \<open>
  C7. With the mongo adapter registered, a first construction is given
  \<^verbatim>\<open>databases: [{type: 'mongo'}]\<close>. A second construction is given
  \<^verbatim>\<open>databases: [{name: 'legacy'}]\<close>, an entry that no registered pair accepts: line 151
  merges it into the entry that the first construction left in \<^verbatim>\<open>defaults.databases\<close>, the
  factory receives \<^verbatim>\<open>{type: 'mongo', name: 'legacy'}\<close>, and the construction succeeds,
  where the claim says it fails with \<open>NoAdapterError\<close>.
\<close>

theorem unmatched_entry_merged_into_earlier:
  "constructor (loaded\<lparr>registeredAdapters := [mongoAdapter]\<rparr>)
     [(''databases'', Arr [Obj [(''type'', Str ''mongo'')]] [])]
   = Some (Inr \<lparr>resources = [\<lparr>resource_id = ''users'', resource_options = Undefined\<rparr>,
                               \<lparr>resource_id = ''posts'', resource_options = Undefined\<rparr>],
                  options = baseAssignValue defaults_literal ''databases'' (Arr [Obj [(''type'', Str ''mongo'')]] []),
                  DashboardPage = DefaultDashboard\<rparr>,
           \<lparr>defaults = baseAssignValue defaults_literal ''databases'' (Arr [Obj [(''type'', Str ''mongo'')]] []),
            registeredAdapters = [mongoAdapter]\<rparr>)
   \<and> find (matchesDatabase (Obj [(''name'', Str ''legacy'')])) [mongoAdapter] = None
   \<and> constructor
       \<lparr>defaults = baseAssignValue defaults_literal ''databases'' (Arr [Obj [(''type'', Str ''mongo'')]] []),
        registeredAdapters = [mongoAdapter]\<rparr>
       [(''databases'', Arr [Obj [(''name'', Str ''legacy'')]] [])]
   = Some (Inr \<lparr>resources = [\<lparr>resource_id = ''users'', resource_options = Undefined\<rparr>,
                               \<lparr>resource_id = ''posts'', resource_options = Undefined\<rparr>],
                  options = baseAssignValue defaults_literal ''databases''
                              (Arr [Obj [(''type'', Str ''mongo''), (''name'', Str ''legacy'')]] []),
                  DashboardPage = DefaultDashboard\<rparr>,
           \<lparr>defaults = baseAssignValue defaults_literal ''databases''
                         (Arr [Obj [(''type'', Str ''mongo''), (''name'', Str ''legacy'')]] []),
            registeredAdapters = [mongoAdapter]\<rparr>)"
  by (simp add: constructor_def merge_def loaded_def defaults_literal_def assignMergeValue_def
      assignMergeIndex_def setIndex_def getIndex_def
      buildResources_def convertDatabase_def matchesDatabase_def mongoAdapter_def
      DefaultDashboard_def)

text \<open>
  What holds in every state of the module: whenever the constructor returns, its result
  is a failure exactly when the factory fails on the \<^verbatim>\<open>databases\<close> and \<^verbatim>\<open>resources\<close> of the
  merged options, and then it is the factory's error, unchanged; the merge raises nothing.
  When one of these database entries is matched by no registered pair the construction
  fails with \<open>NoAdapterError\<close>. An entry of the caller's \<^verbatim>\<open>databases\<close> is one of these
  entries when it is a value that the merge assigns as it is (a class instance, say), and
  every entry is when the module's \<^verbatim>\<open>defaults.databases\<close> is still the empty array.
\<close>

theorem construction_errors_come_from_factory:
  assumes "constructor M options' = Some (res, M')"
  shows "\<exists>databases dps listed lps.
           get (defaults M') ''databases'' = Arr databases dps
         \<and> get (defaults M') ''resources'' = Arr listed lps
         \<and> (\<forall>e. res = Inl e \<longleftrightarrow> buildResources (registeredAdapters M) databases listed = Inl e)
         \<and> ((\<exists>entry \<in> set databases. find (matchesDatabase entry) (registeredAdapters M) = None)
              \<longrightarrow> res = Inl NoAdapterError)
         \<and> (\<forall>given gps entry. distinct (map fst options')
                \<and> get options' ''databases'' = Arr given gps
                \<and> list_all (\<lambda>k. arrayIndex k = None \<and> k \<noteq> ''length'') (map fst gps)
                \<and> entry \<in> set given \<and> find (matchesDatabase entry) (registeredAdapters M) = None
                \<and> (assignedAsIs entry
                     \<or> wellFormed (Arr given gps) \<and> get (defaults M) ''databases'' = Arr [] [])
              \<longrightarrow> res = Inl NoAdapterError)"
proof -
  from assms obtain merged databases dps listed lps where
    m: "merge (defaults M) options' = Some merged"
    and d: "get merged ''databases'' = Arr databases dps"
    and l: "get merged ''resources'' = Arr listed lps"
    and M': "M' = M\<lparr>defaults := merged\<rparr>"
    and res: "res = (case buildResources (registeredAdapters M) databases listed of
              Inl e \<Rightarrow> Inl e
            | Inr built \<Rightarrow> Inr \<lparr>resources = built, options = merged,
                 DashboardPage = (if truthy (get options' ''dashboard'')
                                  then get options' ''dashboard'' else get merged ''dashboard'')\<rparr>)"
    by (rule constructor_Some)
  have same: "res = Inl e \<longleftrightarrow> buildResources (registeredAdapters M) databases listed = Inl e" for e
    by (auto simp: res split: sum.splits)
  have unmatched: "res = Inl NoAdapterError"
    if "entry \<in> set databases" "find (matchesDatabase entry) (registeredAdapters M) = None" for entry
    using buildResources_databases_error [OF convertDatabases_unmatched [OF that]] same by simp
  have given: "databases = given" if "distinct (map fst options')" "get options' ''databases'' = Arr given gps"
    "wellFormed (Arr given gps)" "get (defaults M) ''databases'' = Arr [] []" for given gps
    using merged_array_over_empty [OF that(1,2,3,4)] m d by (simp add: merge_def)
  have kept: "entry \<in> set databases" if "distinct (map fst options')"
    "get options' ''databases'' = Arr given gps"
    "list_all (\<lambda>k. arrayIndex k = None \<and> k \<noteq> ''length'') (map fst gps)"
    "entry \<in> set given" "assignedAsIs entry" for given gps entry
    using merged_array_keeps_assigned [OF that(1,2,3,4,5), of "defaults M" merged] m d
    by (auto simp: merge_def)
  have user: "res = Inl NoAdapterError"
    if "distinct (map fst options')
        \<and> get options' ''databases'' = Arr given gps
        \<and> list_all (\<lambda>k. arrayIndex k = None \<and> k \<noteq> ''length'') (map fst gps)
        \<and> entry \<in> set given \<and> find (matchesDatabase entry) (registeredAdapters M) = None
        \<and> (assignedAsIs entry
             \<or> wellFormed (Arr given gps) \<and> get (defaults M) ''databases'' = Arr [] [])"
    for given gps entry
  proof -
    from that given kept have "entry \<in> set databases" by blast
    with that show ?thesis by (simp add: unmatched)
  qed
  have "get (defaults M') ''databases'' = Arr databases dps" "get (defaults M') ''resources'' = Arr listed lps"
    using d l by (simp_all add: M')
  with same unmatched user show ?thesis by blast
qed

text \<open>The scenario \<^verbatim>\<open>databases = [{type: 'unknown'}]\<close> with the mongo adapter registered.\<close>

theorem construction_errors_come_from_factory_witness:
  "constructor (loaded\<lparr>registeredAdapters := [mongoAdapter]\<rparr>)
     [(''databases'', Arr [Obj [(''type'', Str ''unknown'')]] [])]
   = Some (Inl NoAdapterError,
           \<lparr>defaults = baseAssignValue defaults_literal ''databases'' (Arr [Obj [(''type'', Str ''unknown'')]] []),
            registeredAdapters = [mongoAdapter]\<rparr>)"
  (is "?c = Some (?res, ?M')")
proof -
  have c: "?c = Some (?res, ?M')"
    by (simp add: constructor_def merge_def loaded_def defaults_literal_def assignMergeValue_def
        assignMergeIndex_def setIndex_def getIndex_def
        buildResources_def convertDatabase_def matchesDatabase_def mongoAdapter_def)
  from construction_errors_come_from_factory [OF c] c show ?thesis by simp
qed

section \<open>C8: the merged options are populated\<close>




section \<open>C9: the login page\<close>

text \<open>
  C9. \<open>renderLogin\<close> calls the renderer once, with the view \<^verbatim>\<open>'pages/login'\<close> and an object
  of exactly the two properties \<^verbatim>\<open>action\<close> and \<^verbatim>\<open>errorMessage\<close> of its argument, and returns
  what the renderer returns. It takes neither an instance nor the module state.
\<close>

theorem renderLogin_passthrough:
  "get arg ''action'' = action \<Longrightarrow> get arg ''errorMessage'' = errorMessage \<Longrightarrow>
   renderLogin render arg
     = render ''pages/login'' [(''action'', action), (''errorMessage'', errorMessage)]"
  by (simp add: renderLogin_def)

text \<open>A renderer that returns its two arguments.\<close>

theorem renderLogin_passthrough_witness:
  "get [(''errorMessage'', Str ''Wrong password''), (''action'', Str ''/admin/login''), (''more'', Num 1)] ''action''
     = Str ''/admin/login''
   \<and> renderLogin (\<lambda>view data. (view, data))
        [(''errorMessage'', Str ''Wrong password''), (''action'', Str ''/admin/login''), (''more'', Num 1)]
     = (''pages/login'', [(''action'', Str ''/admin/login''), (''errorMessage'', Str ''Wrong password'')])"
  using renderLogin_passthrough [of
      "[(''errorMessage'', Str ''Wrong password''), (''action'', Str ''/admin/login''), (''more'', Num 1)]"
      "Str ''/admin/login''" "Str ''Wrong password''" "\<lambda>view data. (view, data)"]
  by simp

section \<open>C10: the dashboard page\<close>

text \<open>
  C10. Line 156 is \<^verbatim>\<open>options.dashboard || defaults.dashboard\<close>, read after line 151 has
  merged the options into \<^verbatim>\<open>defaults\<close>. After a construction with a custom dashboard, a
  construction with \<^verbatim>\<open>{}\<close> has that custom dashboard as its \<^verbatim>\<open>DashboardPage\<close>; and on the
  freshly loaded module, \<^verbatim>\<open>{dashboard: null}\<close> gives the \<^verbatim>\<open>DashboardPage\<close> \<^verbatim>\<open>null\<close>. In both
  the claim says \<^verbatim>\<open>DefaultDashboard\<close>.
\<close>

theorem dashboard_fallback_reads_merged_defaults:
  "constructor loaded [(''dashboard'', Fn 1)]
     = Some (Inr \<lparr>resources = [],
                  options = baseAssignValue defaults_literal ''dashboard'' (Fn 1),
                  DashboardPage = Fn 1\<rparr>,
             loaded\<lparr>defaults := baseAssignValue defaults_literal ''dashboard'' (Fn 1)\<rparr>)
   \<and> constructor (loaded\<lparr>defaults := baseAssignValue defaults_literal ''dashboard'' (Fn 1)\<rparr>) []
     = Some (Inr \<lparr>resources = [],
                  options = baseAssignValue defaults_literal ''dashboard'' (Fn 1),
                  DashboardPage = Fn 1\<rparr>,
             loaded\<lparr>defaults := baseAssignValue defaults_literal ''dashboard'' (Fn 1)\<rparr>)
   \<and> constructor loaded [(''dashboard'', Null)]
     = Some (Inr \<lparr>resources = [],
                  options = baseAssignValue defaults_literal ''dashboard'' Null,
                  DashboardPage = Null\<rparr>,
             loaded\<lparr>defaults := baseAssignValue defaults_literal ''dashboard'' Null\<rparr>)
   \<and> DefaultDashboard \<noteq> Fn 1 \<and> DefaultDashboard \<noteq> Null"
  by (simp add: constructor_def merge_def loaded_def defaults_literal_def assignMergeValue_def
      buildResources_def DefaultDashboard_def)

end
